theory Spec2Isabelle
  imports Main "HOL-Library.Word"
begin

section \<open>The redis client options of go-rest-template\<close>

text \<open>
  This theory embeds \<^verbatim>\<open>redis/option/client.go\<close>: the struct \<^verbatim>\<open>Client\<close>, the
  interface \<^verbatim>\<open>Limiter\<close> and the method \<^verbatim>\<open>ParseToRedisOptions\<close>, which builds a
  \<^verbatim>\<open>redis.Options\<close> of go-redis from a \<^verbatim>\<open>Client\<close> and returns its address.
\<close>

subsection \<open>Values\<close>

text \<open>
  Go's \<^verbatim>\<open>int\<close> on a 64-bit target and \<^verbatim>\<open>time.Duration\<close> (an \<^verbatim>\<open>int64\<close> counting
  nanoseconds) are 64-bit two's complement words: \<open>-1\<close> and \<open>-2\<close> are the words whose
  \<open>sint\<close> is \<open>-1\<close> and \<open>-2\<close>.
\<close>

type_synonym go_int = "64 word"
type_synonym Duration = "64 word"

text \<open>
  The code never calls a function-valued field, never reads through the TLS pointer and
  never calls a method of the limiter: each of them is an opaque reference, told apart
  from the others by an identity only. \<open>None\<close> is Go's \<^verbatim>\<open>nil\<close>.
  Assigning a \<^verbatim>\<open>Limiter\<close> of this package to the field of type \<^verbatim>\<open>redis.Limiter\<close> is a
  conversion between two interfaces with the same method set; it keeps the dynamic
  value, so both interfaces share one type here.
\<close>

datatype func_ref = FuncRef nat
datatype tls_Config_ptr = TLSConfigPtr nat
datatype Limiter = LimiterRef nat

subsection \<open>The struct \<^verbatim>\<open>Client\<close>\<close>

record Client =
  Network :: string
  Addr :: string
  ClientName :: string
  Dialer :: "func_ref option"
  OnConnect :: "func_ref option"
  Protocol :: go_int
  Username :: string
  Password :: string
  CredentialsProvider :: "func_ref option"
  DB :: go_int
  MaxRetries :: go_int
  MinRetryBackoff :: Duration
  MaxRetryBackoff :: Duration
  DialTimeout :: Duration
  ReadTimeout :: Duration
  WriteTimeout :: Duration
  ContextTimeoutEnabled :: bool
  PoolFIFO :: bool
  PoolSize :: go_int
  PoolTimeout :: Duration
  MinIdleConns :: go_int
  MaxIdleConns :: go_int
  MaxActiveConns :: go_int
  ConnMaxIdleTime :: Duration
  ConnMaxLifetime :: Duration
  TLSConfig :: "tls_Config_ptr option"
  Limiter :: "Limiter option"
  readOnly :: bool
  DisableIndentity :: bool

text \<open>The zero value of \<^verbatim>\<open>Client\<close>, Go's \<^verbatim>\<open>Client{}\<close>.\<close>

definition Client_zero :: Client where
  "Client_zero = \<lparr>
     Network = [], Addr = [], ClientName = [],
     Dialer = None, OnConnect = None,
     Protocol = 0, Username = [], Password = [],
     CredentialsProvider = None,
     DB = 0, MaxRetries = 0, MinRetryBackoff = 0, MaxRetryBackoff = 0,
     DialTimeout = 0, ReadTimeout = 0, WriteTimeout = 0,
     ContextTimeoutEnabled = False, PoolFIFO = False,
     PoolSize = 0, PoolTimeout = 0,
     MinIdleConns = 0, MaxIdleConns = 0, MaxActiveConns = 0,
     ConnMaxIdleTime = 0, ConnMaxLifetime = 0,
     TLSConfig = None, Limiter = None,
     readOnly = False, DisableIndentity = False\<rparr>"

subsection \<open>The struct \<^verbatim>\<open>redis.Options\<close>\<close>

text \<open>
  \<^verbatim>\<open>redis.Options\<close> is declared in go-redis. Its fields here are the ones the composite
  literal of \<^verbatim>\<open>ParseToRedisOptions\<close> names, with the types of the values assigned to
  them. A field of \<^verbatim>\<open>redis.Options\<close> that the literal does not name keeps its zero value
  in every result and is left out.
\<close>

record Options =
  Network :: string
  Addr :: string
  ClientName :: string
  Dialer :: "func_ref option"
  OnConnect :: "func_ref option"
  Protocol :: go_int
  Username :: string
  Password :: string
  CredentialsProvider :: "func_ref option"
  DB :: go_int
  MaxRetries :: go_int
  MinRetryBackoff :: Duration
  MaxRetryBackoff :: Duration
  DialTimeout :: Duration
  ReadTimeout :: Duration
  WriteTimeout :: Duration
  ContextTimeoutEnabled :: bool
  PoolFIFO :: bool
  PoolSize :: go_int
  PoolTimeout :: Duration
  MinIdleConns :: go_int
  MaxIdleConns :: go_int
  MaxActiveConns :: go_int
  ConnMaxIdleTime :: Duration
  ConnMaxLifetime :: Duration
  TLSConfig :: "tls_Config_ptr option"
  Limiter :: "Limiter option"
  DisableIndentity :: bool

subsection \<open>Allocation\<close>

text \<open>
  \<^verbatim>\<open>&redis.Options{...}\<close> allocates a new struct and yields its address. The heap
  holds the structs allocated so far, the one at address \<open>a\<close> in position \<open>a\<close>;
  a pointer is \<open>Some a\<close>, or \<open>None\<close> for \<^verbatim>\<open>nil\<close>.
\<close>

type_synonym addr = nat
type_synonym heap = "Options list"
type_synonym Options_ptr = "addr option"

definition new_Options :: "Options \<Rightarrow> heap \<Rightarrow> Options_ptr \<times> heap" where
  "new_Options v h = (Some (length h), h @ [v])"

definition load :: "heap \<Rightarrow> Options_ptr \<Rightarrow> Options option" where
  "load h p =
     (case p of
        None \<Rightarrow> None
      | Some a \<Rightarrow> if a < length h then Some (h ! a) else None)"

subsection \<open>\<^verbatim>\<open>ParseToRedisOptions\<close>\<close>

definition ParseToRedisOptions :: "Client \<Rightarrow> heap \<Rightarrow> Options_ptr \<times> heap" where
  "ParseToRedisOptions c h =
     new_Options \<lparr>
       Network = Client.Network c,
       Addr = Client.Addr c,
       ClientName = Client.ClientName c,
       Dialer = Client.Dialer c,
       OnConnect = Client.OnConnect c,
       Protocol = Client.Protocol c,
       Username = Client.Username c,
       Password = Client.Password c,
       CredentialsProvider = Client.CredentialsProvider c,
       DB = Client.MaxIdleConns c,
       MaxRetries = Client.MaxRetries c,
       MinRetryBackoff = Client.MinRetryBackoff c,
       MaxRetryBackoff = Client.MaxRetryBackoff c,
       DialTimeout = Client.DialTimeout c,
       ReadTimeout = Client.ReadTimeout c,
       WriteTimeout = Client.WriteTimeout c,
       ContextTimeoutEnabled = Client.ContextTimeoutEnabled c,
       PoolFIFO = Client.PoolFIFO c,
       PoolSize = Client.PoolSize c,
       PoolTimeout = Client.PoolTimeout c,
       MinIdleConns = Client.MinIdleConns c,
       MaxIdleConns = Client.MaxActiveConns c,
       MaxActiveConns = Client.MaxActiveConns c,
       ConnMaxIdleTime = Client.ConnMaxIdleTime c,
       ConnMaxLifetime = Client.ConnMaxLifetime c,
       TLSConfig = Client.TLSConfig c,
       Limiter = Client.Limiter c,
       DisableIndentity = Client.DisableIndentity c\<rparr> h"

text \<open>
  What a caller holds after the call: the struct behind the returned pointer, read in
  the heap the call leaves.
\<close>

definition ParseToRedisOptions_result :: "Client \<Rightarrow> heap \<Rightarrow> Options option" where
  "ParseToRedisOptions_result c h =
     (case ParseToRedisOptions c h of (p, h') \<Rightarrow> load h' p)"

section \<open>Properties of \<^verbatim>\<open>ParseToRedisOptions\<close>\<close>

subsection \<open>Shared facts\<close>

lemma ParseToRedisOptions_pointer:
  "fst (ParseToRedisOptions c h) = Some (length h)"
  by (simp add: ParseToRedisOptions_def new_Options_def)

lemma ParseToRedisOptions_heap_grows:
  "\<exists>v. snd (ParseToRedisOptions c h) = h @ [v]"
  by (simp add: ParseToRedisOptions_def new_Options_def)

lemma load_new_Options:
  "new_Options v h = (p, h') \<Longrightarrow> load h' p = Some v"
  by (auto simp add: new_Options_def load_def)

lemma ParseToRedisOptions_ignores_DB_readOnly:
  "ParseToRedisOptions (c\<lparr>Client.DB := d, readOnly := r\<rparr>) h = ParseToRedisOptions c h"
  by (simp add: ParseToRedisOptions_def)

text \<open>
  The twenty-six fields of the result that do take the value of the field of the same
  name.
\<close>

lemma ParseToRedisOptions_same_name_fields:
  "\<exists>out. ParseToRedisOptions_result c h = Some out
     \<and> Options.Network out = Client.Network c
     \<and> Options.Addr out = Client.Addr c
     \<and> Options.ClientName out = Client.ClientName c
     \<and> Options.Dialer out = Client.Dialer c
     \<and> Options.OnConnect out = Client.OnConnect c
     \<and> Options.Protocol out = Client.Protocol c
     \<and> Options.Username out = Client.Username c
     \<and> Options.Password out = Client.Password c
     \<and> Options.CredentialsProvider out = Client.CredentialsProvider c
     \<and> Options.MaxRetries out = Client.MaxRetries c
     \<and> Options.MinRetryBackoff out = Client.MinRetryBackoff c
     \<and> Options.MaxRetryBackoff out = Client.MaxRetryBackoff c
     \<and> Options.DialTimeout out = Client.DialTimeout c
     \<and> Options.ReadTimeout out = Client.ReadTimeout c
     \<and> Options.WriteTimeout out = Client.WriteTimeout c
     \<and> Options.ContextTimeoutEnabled out = Client.ContextTimeoutEnabled c
     \<and> Options.PoolFIFO out = Client.PoolFIFO c
     \<and> Options.PoolSize out = Client.PoolSize c
     \<and> Options.PoolTimeout out = Client.PoolTimeout c
     \<and> Options.MinIdleConns out = Client.MinIdleConns c
     \<and> Options.MaxActiveConns out = Client.MaxActiveConns c
     \<and> Options.ConnMaxIdleTime out = Client.ConnMaxIdleTime c
     \<and> Options.ConnMaxLifetime out = Client.ConnMaxLifetime c
     \<and> Options.TLSConfig out = Client.TLSConfig c
     \<and> Options.Limiter out = Client.Limiter c
     \<and> Options.DisableIndentity out = Client.DisableIndentity c"
  by (simp add: ParseToRedisOptions_result_def ParseToRedisOptions_def
      new_Options_def load_def)

text \<open>
  The sentinels are different words, and a configuration that carries them comes out
  with them.
\<close>

lemma sentinels_distinct:
  "(0 :: Duration) \<noteq> - 1 \<and> (0 :: Duration) \<noteq> - 2 \<and> (- 1 :: Duration) \<noteq> - 2
     \<and> sint (- 1 :: Duration) = - 1 \<and> sint (- 2 :: Duration) = - 2"
  by simp

lemma ParseToRedisOptions_sentinels_example:
  "map_option (\<lambda>out. (Options.DialTimeout out, Options.ReadTimeout out,
        Options.WriteTimeout out, Options.MinRetryBackoff out,
        Options.MaxRetryBackoff out, Options.MaxRetries out))
     (ParseToRedisOptions_result
        (Client_zero\<lparr>Client.DialTimeout := 5000000000, Client.ReadTimeout := - 2,
           Client.WriteTimeout := - 1, Client.MinRetryBackoff := - 1,
           Client.MaxRetryBackoff := 0, Client.MaxRetries := - 1\<rparr>) [])
   = Some (5000000000, - 2, - 1, - 1, 0, - 1)"
  by (simp add: ParseToRedisOptions_result_def ParseToRedisOptions_def
      new_Options_def load_def Client_zero_def)

subsection \<open>The mapping of the fields\<close>

text \<open>
  C1. The claim: in the result, every field equals the field of the same name of the
  configuration. The code assigns \<^verbatim>\<open>c.MaxIdleConns\<close> to \<^verbatim>\<open>DB\<close> and
  \<^verbatim>\<open>c.MaxActiveConns\<close> to \<^verbatim>\<open>MaxIdleConns\<close>: for the configuration with \<^verbatim>\<open>DB\<close> 1,
  \<^verbatim>\<open>MaxIdleConns\<close> 2 and \<^verbatim>\<open>MaxActiveConns\<close> 3 and every other field zero, the result
  has \<^verbatim>\<open>DB\<close> 2 and \<^verbatim>\<open>MaxIdleConns\<close> 3, not 1 and 2.
\<close>

theorem ParseToRedisOptions_DB_MaxIdleConns_crossed:
  "map_option Options.DB
     (ParseToRedisOptions_result
        (Client_zero\<lparr>Client.DB := 1, Client.MaxIdleConns := 2,
           Client.MaxActiveConns := 3\<rparr>) []) = Some 2
   \<and> map_option Options.MaxIdleConns
     (ParseToRedisOptions_result
        (Client_zero\<lparr>Client.DB := 1, Client.MaxIdleConns := 2,
           Client.MaxActiveConns := 3\<rparr>) []) = Some 3
   \<and> Client.DB (Client_zero\<lparr>Client.DB := 1, Client.MaxIdleConns := 2,
           Client.MaxActiveConns := 3\<rparr>) = 1
   \<and> Client.MaxIdleConns (Client_zero\<lparr>Client.DB := 1, Client.MaxIdleConns := 2,
           Client.MaxActiveConns := 3\<rparr>) = 2
   \<and> (2 :: go_int) \<noteq> 1 \<and> (3 :: go_int) \<noteq> 2"
  by (simp add: ParseToRedisOptions_result_def ParseToRedisOptions_def
      new_Options_def load_def Client_zero_def)

text \<open>
  C2. For every configuration, the \<^verbatim>\<open>DB\<close> of the result is the configuration's
  \<^verbatim>\<open>MaxIdleConns\<close> and the \<^verbatim>\<open>MaxIdleConns\<close> of the result is the configuration's
  \<^verbatim>\<open>MaxActiveConns\<close>; and there is a configuration whose result has neither the
  \<^verbatim>\<open>DB\<close> nor the \<^verbatim>\<open>MaxIdleConns\<close> of the configuration.
\<close>

theorem ParseToRedisOptions_cross_mapping:
  "(\<exists>out. ParseToRedisOptions_result c h = Some out
      \<and> Options.DB out = Client.MaxIdleConns c
      \<and> Options.MaxIdleConns out = Client.MaxActiveConns c)
   \<and> (\<exists>c' out'. ParseToRedisOptions_result c' h = Some out'
      \<and> Options.DB out' \<noteq> Client.DB c'
      \<and> Options.MaxIdleConns out' \<noteq> Client.MaxIdleConns c')"
proof
  show "\<exists>out. ParseToRedisOptions_result c h = Some out
      \<and> Options.DB out = Client.MaxIdleConns c
      \<and> Options.MaxIdleConns out = Client.MaxActiveConns c"
    by (simp add: ParseToRedisOptions_result_def ParseToRedisOptions_def
        new_Options_def load_def)
next
  let ?c = "Client_zero\<lparr>Client.DB := 1, Client.MaxIdleConns := 2,
              Client.MaxActiveConns := 3\<rparr>"
  have "\<exists>out'. ParseToRedisOptions_result ?c h = Some out'
      \<and> Options.DB out' \<noteq> Client.DB ?c
      \<and> Options.MaxIdleConns out' \<noteq> Client.MaxIdleConns ?c"
    by (simp add: ParseToRedisOptions_result_def ParseToRedisOptions_def
        new_Options_def load_def Client_zero_def)
  then show "\<exists>c' out'. ParseToRedisOptions_result c' h = Some out'
      \<and> Options.DB out' \<noteq> Client.DB c'
      \<and> Options.MaxIdleConns out' \<noteq> Client.MaxIdleConns c'"
    by (rule exI)
qed

text \<open>
  C3. For every configuration, \<^verbatim>\<open>DialTimeout\<close>, \<^verbatim>\<open>ReadTimeout\<close>, \<^verbatim>\<open>WriteTimeout\<close>,
  \<^verbatim>\<open>MinRetryBackoff\<close>, \<^verbatim>\<open>MaxRetryBackoff\<close> and \<^verbatim>\<open>MaxRetries\<close> of the result are the same
  64-bit words as in the configuration, whatever they are: 0, -1 and -2 included.
\<close>

theorem ParseToRedisOptions_sentinels_preserved:
  "\<exists>out. ParseToRedisOptions_result c h = Some out
     \<and> Options.DialTimeout out = Client.DialTimeout c
     \<and> Options.ReadTimeout out = Client.ReadTimeout c
     \<and> Options.WriteTimeout out = Client.WriteTimeout c
     \<and> Options.MinRetryBackoff out = Client.MinRetryBackoff c
     \<and> Options.MaxRetryBackoff out = Client.MaxRetryBackoff c
     \<and> Options.MaxRetries out = Client.MaxRetries c"
  by (simp add: ParseToRedisOptions_result_def ParseToRedisOptions_def
      new_Options_def load_def)

subsection \<open>Totality and determinism\<close>

text \<open>
  C4. For every configuration and every heap, the call returns: its pointer is not
  \<^verbatim>\<open>nil\<close> and refers to a \<^verbatim>\<open>redis.Options\<close> in the heap it leaves. The same holds at
  the zero value of \<^verbatim>\<open>Client\<close>. There is no error result to signal.
\<close>

theorem ParseToRedisOptions_total:
  "(\<exists>a h' out. ParseToRedisOptions c h = (Some a, h') \<and> load h' (Some a) = Some out)
   \<and> (\<exists>a h' out. ParseToRedisOptions Client_zero h = (Some a, h')
         \<and> load h' (Some a) = Some out)"
  by (simp add: ParseToRedisOptions_def new_Options_def load_def)

text \<open>
  C5. The struct a call yields depends on the configuration only: from any two heaps
  the results are equal. Two calls in a row on the same configuration return two
  different addresses that hold equal structs, and the second call leaves the struct
  of the first as it was.
\<close>

theorem ParseToRedisOptions_deterministic:
  "ParseToRedisOptions_result c h = ParseToRedisOptions_result c g
   \<and> ParseToRedisOptions_result c h \<noteq> None
   \<and> (case ParseToRedisOptions c h of (p1, h1) \<Rightarrow>
        (case ParseToRedisOptions c h1 of (p2, h2) \<Rightarrow>
           p1 \<noteq> p2 \<and> load h2 p1 = load h2 p2 \<and> load h2 p1 = load h1 p1
           \<and> load h1 p1 = ParseToRedisOptions_result c h))"
  by (simp add: ParseToRedisOptions_result_def ParseToRedisOptions_def
      new_Options_def load_def nth_append)

subsection \<open>References\<close>

text \<open>
  C6. For every configuration whose \<^verbatim>\<open>Limiter\<close> is not \<^verbatim>\<open>nil\<close>, the \<^verbatim>\<open>Limiter\<close> of the
  result is the same reference: the same identity, not another one.
\<close>

theorem ParseToRedisOptions_Limiter_same_reference:
  "Client.Limiter c = Some l \<Longrightarrow>
   \<exists>out. ParseToRedisOptions_result c h = Some out \<and> Options.Limiter out = Some l"
  by (simp add: ParseToRedisOptions_result_def ParseToRedisOptions_def
      new_Options_def load_def)

theorem ParseToRedisOptions_Limiter_same_reference_witness:
  "Client.Limiter (Client_zero\<lparr>Client.Limiter := Some (LimiterRef 7)\<rparr>)
     = Some (LimiterRef 7)
   \<and> (\<exists>out. ParseToRedisOptions_result
          (Client_zero\<lparr>Client.Limiter := Some (LimiterRef 7)\<rparr>) [] = Some out
        \<and> Options.Limiter out = Some (LimiterRef 7))"
proof -
  have l: "Client.Limiter (Client_zero\<lparr>Client.Limiter := Some (LimiterRef 7)\<rparr>)
     = Some (LimiterRef 7)"
    by simp
  show ?thesis
    using l ParseToRedisOptions_Limiter_same_reference [OF l, of "[]"] by simp
qed

text \<open>
  C7. For every configuration with \<^verbatim>\<open>Dialer\<close> not \<^verbatim>\<open>nil\<close> and \<^verbatim>\<open>Network\<close> and
  \<^verbatim>\<open>Addr\<close> not empty, the result has the same \<^verbatim>\<open>Dialer\<close>, \<^verbatim>\<open>Network\<close> and \<^verbatim>\<open>Addr\<close>.
\<close>

theorem ParseToRedisOptions_Dialer_Network_Addr:
  "Client.Dialer c \<noteq> None \<Longrightarrow> Client.Network c \<noteq> [] \<Longrightarrow> Client.Addr c \<noteq> [] \<Longrightarrow>
   \<exists>out. ParseToRedisOptions_result c h = Some out
     \<and> Options.Dialer out = Client.Dialer c
     \<and> Options.Network out = Client.Network c
     \<and> Options.Addr out = Client.Addr c"
  by (simp add: ParseToRedisOptions_result_def ParseToRedisOptions_def
      new_Options_def load_def)

theorem ParseToRedisOptions_Dialer_Network_Addr_witness:
  "Client.Dialer (Client_zero\<lparr>Client.Network := ''unix'',
       Client.Addr := ''/tmp/redis.sock'', Client.Dialer := Some (FuncRef 1)\<rparr>) \<noteq> None
   \<and> Client.Network (Client_zero\<lparr>Client.Network := ''unix'',
       Client.Addr := ''/tmp/redis.sock'', Client.Dialer := Some (FuncRef 1)\<rparr>) \<noteq> []
   \<and> Client.Addr (Client_zero\<lparr>Client.Network := ''unix'',
       Client.Addr := ''/tmp/redis.sock'', Client.Dialer := Some (FuncRef 1)\<rparr>) \<noteq> []
   \<and> (\<exists>out. ParseToRedisOptions_result (Client_zero\<lparr>Client.Network := ''unix'',
       Client.Addr := ''/tmp/redis.sock'', Client.Dialer := Some (FuncRef 1)\<rparr>) []
         = Some out
       \<and> Options.Dialer out = Some (FuncRef 1)
       \<and> Options.Network out = ''unix''
       \<and> Options.Addr out = ''/tmp/redis.sock'')"
proof -
  let ?c = "Client_zero\<lparr>Client.Network := ''unix'',
       Client.Addr := ''/tmp/redis.sock'', Client.Dialer := Some (FuncRef 1)\<rparr>"
  have d: "Client.Dialer ?c \<noteq> None" by simp
  have n: "Client.Network ?c \<noteq> []" by simp
  have a: "Client.Addr ?c \<noteq> []" by simp
  show ?thesis
    using d n a ParseToRedisOptions_Dialer_Network_Addr [OF d n a, of "[]"] by simp
qed

subsection \<open>No defaults, no influence of \<^verbatim>\<open>DB\<close> and \<^verbatim>\<open>readOnly\<close>\<close>

text \<open>
  C8. No default is put in, for any configuration: each field of the result is zero
  whenever the field of the configuration that the code reads for it is zero (the field
  of the same name; \<^verbatim>\<open>MaxIdleConns\<close> for \<^verbatim>\<open>DB\<close> and \<^verbatim>\<open>MaxActiveConns\<close> for
  \<^verbatim>\<open>MaxIdleConns\<close>). So a zero \<^verbatim>\<open>MaxRetries\<close> stays 0 and does not become 3, a zero
  \<^verbatim>\<open>DialTimeout\<close> stays 0 and does not become 5 s. And for the configuration with
  \<^verbatim>\<open>Addr\<close> \<^verbatim>\<open>"localhost:6379"\<close>, \<^verbatim>\<open>MaxRetries\<close> 3, \<^verbatim>\<open>MinRetryBackoff\<close> 8 ms
  (8000000 ns) and \<^verbatim>\<open>PoolSize\<close> 10 and every other field zero, the result has these
  four values and the zero value in every other field.
\<close>

theorem ParseToRedisOptions_no_defaults:
  "(\<exists>out. ParseToRedisOptions_result c h = Some out
      \<and> (Client.Network c = [] \<longrightarrow> Options.Network out = [])
      \<and> (Client.Addr c = [] \<longrightarrow> Options.Addr out = [])
      \<and> (Client.ClientName c = [] \<longrightarrow> Options.ClientName out = [])
      \<and> (Client.Dialer c = None \<longrightarrow> Options.Dialer out = None)
      \<and> (Client.OnConnect c = None \<longrightarrow> Options.OnConnect out = None)
      \<and> (Client.Protocol c = 0 \<longrightarrow> Options.Protocol out = 0)
      \<and> (Client.Username c = [] \<longrightarrow> Options.Username out = [])
      \<and> (Client.Password c = [] \<longrightarrow> Options.Password out = [])
      \<and> (Client.CredentialsProvider c = None \<longrightarrow> Options.CredentialsProvider out = None)
      \<and> (Client.MaxIdleConns c = 0 \<longrightarrow> Options.DB out = 0)
      \<and> (Client.MaxRetries c = 0 \<longrightarrow> Options.MaxRetries out = 0)
      \<and> (Client.MinRetryBackoff c = 0 \<longrightarrow> Options.MinRetryBackoff out = 0)
      \<and> (Client.MaxRetryBackoff c = 0 \<longrightarrow> Options.MaxRetryBackoff out = 0)
      \<and> (Client.DialTimeout c = 0 \<longrightarrow> Options.DialTimeout out = 0)
      \<and> (Client.ReadTimeout c = 0 \<longrightarrow> Options.ReadTimeout out = 0)
      \<and> (Client.WriteTimeout c = 0 \<longrightarrow> Options.WriteTimeout out = 0)
      \<and> (Client.ContextTimeoutEnabled c = False \<longrightarrow> Options.ContextTimeoutEnabled out = False)
      \<and> (Client.PoolFIFO c = False \<longrightarrow> Options.PoolFIFO out = False)
      \<and> (Client.PoolSize c = 0 \<longrightarrow> Options.PoolSize out = 0)
      \<and> (Client.PoolTimeout c = 0 \<longrightarrow> Options.PoolTimeout out = 0)
      \<and> (Client.MinIdleConns c = 0 \<longrightarrow> Options.MinIdleConns out = 0)
      \<and> (Client.MaxActiveConns c = 0 \<longrightarrow> Options.MaxIdleConns out = 0)
      \<and> (Client.MaxActiveConns c = 0 \<longrightarrow> Options.MaxActiveConns out = 0)
      \<and> (Client.ConnMaxIdleTime c = 0 \<longrightarrow> Options.ConnMaxIdleTime out = 0)
      \<and> (Client.ConnMaxLifetime c = 0 \<longrightarrow> Options.ConnMaxLifetime out = 0)
      \<and> (Client.TLSConfig c = None \<longrightarrow> Options.TLSConfig out = None)
      \<and> (Client.Limiter c = None \<longrightarrow> Options.Limiter out = None)
      \<and> (Client.DisableIndentity c = False \<longrightarrow> Options.DisableIndentity out = False))
   \<and> ParseToRedisOptions_result
     (Client_zero\<lparr>Client.Addr := ''localhost:6379'', Client.MaxRetries := 3,
        Client.MinRetryBackoff := 8000000, Client.PoolSize := 10\<rparr>) h
   = Some \<lparr>
       Network = [], Addr = ''localhost:6379'', ClientName = [],
       Dialer = None, OnConnect = None,
       Protocol = 0, Username = [], Password = [],
       CredentialsProvider = None,
       DB = 0, MaxRetries = 3, MinRetryBackoff = 8000000, MaxRetryBackoff = 0,
       DialTimeout = 0, ReadTimeout = 0, WriteTimeout = 0,
       ContextTimeoutEnabled = False, PoolFIFO = False,
       PoolSize = 10, PoolTimeout = 0,
       MinIdleConns = 0, MaxIdleConns = 0, MaxActiveConns = 0,
       ConnMaxIdleTime = 0, ConnMaxLifetime = 0,
       TLSConfig = None, Limiter = None,
       DisableIndentity = False\<rparr>"
proof
  show "\<exists>out. ParseToRedisOptions_result c h = Some out
      \<and> (Client.Network c = [] \<longrightarrow> Options.Network out = [])
      \<and> (Client.Addr c = [] \<longrightarrow> Options.Addr out = [])
      \<and> (Client.ClientName c = [] \<longrightarrow> Options.ClientName out = [])
      \<and> (Client.Dialer c = None \<longrightarrow> Options.Dialer out = None)
      \<and> (Client.OnConnect c = None \<longrightarrow> Options.OnConnect out = None)
      \<and> (Client.Protocol c = 0 \<longrightarrow> Options.Protocol out = 0)
      \<and> (Client.Username c = [] \<longrightarrow> Options.Username out = [])
      \<and> (Client.Password c = [] \<longrightarrow> Options.Password out = [])
      \<and> (Client.CredentialsProvider c = None \<longrightarrow> Options.CredentialsProvider out = None)
      \<and> (Client.MaxIdleConns c = 0 \<longrightarrow> Options.DB out = 0)
      \<and> (Client.MaxRetries c = 0 \<longrightarrow> Options.MaxRetries out = 0)
      \<and> (Client.MinRetryBackoff c = 0 \<longrightarrow> Options.MinRetryBackoff out = 0)
      \<and> (Client.MaxRetryBackoff c = 0 \<longrightarrow> Options.MaxRetryBackoff out = 0)
      \<and> (Client.DialTimeout c = 0 \<longrightarrow> Options.DialTimeout out = 0)
      \<and> (Client.ReadTimeout c = 0 \<longrightarrow> Options.ReadTimeout out = 0)
      \<and> (Client.WriteTimeout c = 0 \<longrightarrow> Options.WriteTimeout out = 0)
      \<and> (Client.ContextTimeoutEnabled c = False \<longrightarrow> Options.ContextTimeoutEnabled out = False)
      \<and> (Client.PoolFIFO c = False \<longrightarrow> Options.PoolFIFO out = False)
      \<and> (Client.PoolSize c = 0 \<longrightarrow> Options.PoolSize out = 0)
      \<and> (Client.PoolTimeout c = 0 \<longrightarrow> Options.PoolTimeout out = 0)
      \<and> (Client.MinIdleConns c = 0 \<longrightarrow> Options.MinIdleConns out = 0)
      \<and> (Client.MaxActiveConns c = 0 \<longrightarrow> Options.MaxIdleConns out = 0)
      \<and> (Client.MaxActiveConns c = 0 \<longrightarrow> Options.MaxActiveConns out = 0)
      \<and> (Client.ConnMaxIdleTime c = 0 \<longrightarrow> Options.ConnMaxIdleTime out = 0)
      \<and> (Client.ConnMaxLifetime c = 0 \<longrightarrow> Options.ConnMaxLifetime out = 0)
      \<and> (Client.TLSConfig c = None \<longrightarrow> Options.TLSConfig out = None)
      \<and> (Client.Limiter c = None \<longrightarrow> Options.Limiter out = None)
      \<and> (Client.DisableIndentity c = False \<longrightarrow> Options.DisableIndentity out = False)"
    by (simp add: ParseToRedisOptions_result_def ParseToRedisOptions_def
        new_Options_def load_def)
next
  show "ParseToRedisOptions_result
     (Client_zero\<lparr>Client.Addr := ''localhost:6379'', Client.MaxRetries := 3,
        Client.MinRetryBackoff := 8000000, Client.PoolSize := 10\<rparr>) h
   = Some \<lparr>
       Network = [], Addr = ''localhost:6379'', ClientName = [],
       Dialer = None, OnConnect = None,
       Protocol = 0, Username = [], Password = [],
       CredentialsProvider = None,
       DB = 0, MaxRetries = 3, MinRetryBackoff = 8000000, MaxRetryBackoff = 0,
       DialTimeout = 0, ReadTimeout = 0, WriteTimeout = 0,
       ContextTimeoutEnabled = False, PoolFIFO = False,
       PoolSize = 10, PoolTimeout = 0,
       MinIdleConns = 0, MaxIdleConns = 0, MaxActiveConns = 0,
       ConnMaxIdleTime = 0, ConnMaxLifetime = 0,
       TLSConfig = None, Limiter = None,
       DisableIndentity = False\<rparr>"
    by (simp add: ParseToRedisOptions_result_def ParseToRedisOptions_def
        new_Options_def load_def Client_zero_def)
qed

text \<open>
  At the zero value of \<^verbatim>\<open>Client\<close> every field read is zero, so every field of the
  result is zero: \<^verbatim>\<open>MaxRetries\<close> is not 3, \<^verbatim>\<open>MinRetryBackoff\<close> not 8 ms,
  \<^verbatim>\<open>DialTimeout\<close> not 5 s and \<^verbatim>\<open>PoolSize\<close> not 10.
\<close>

theorem ParseToRedisOptions_no_defaults_witness:
  "(Client.Network Client_zero = []
   \<and> Client.Addr Client_zero = []
   \<and> Client.ClientName Client_zero = []
   \<and> Client.Dialer Client_zero = None
   \<and> Client.OnConnect Client_zero = None
   \<and> Client.Protocol Client_zero = 0
   \<and> Client.Username Client_zero = []
   \<and> Client.Password Client_zero = []
   \<and> Client.CredentialsProvider Client_zero = None
   \<and> Client.MaxIdleConns Client_zero = 0
   \<and> Client.MaxRetries Client_zero = 0
   \<and> Client.MinRetryBackoff Client_zero = 0
   \<and> Client.MaxRetryBackoff Client_zero = 0
   \<and> Client.DialTimeout Client_zero = 0
   \<and> Client.ReadTimeout Client_zero = 0
   \<and> Client.WriteTimeout Client_zero = 0
   \<and> Client.ContextTimeoutEnabled Client_zero = False
   \<and> Client.PoolFIFO Client_zero = False
   \<and> Client.PoolSize Client_zero = 0
   \<and> Client.PoolTimeout Client_zero = 0
   \<and> Client.MinIdleConns Client_zero = 0
   \<and> Client.MaxActiveConns Client_zero = 0
   \<and> Client.ConnMaxIdleTime Client_zero = 0
   \<and> Client.ConnMaxLifetime Client_zero = 0
   \<and> Client.TLSConfig Client_zero = None
   \<and> Client.Limiter Client_zero = None
   \<and> Client.DisableIndentity Client_zero = False)
   \<and> (\<exists>out. ParseToRedisOptions_result Client_zero [] = Some out
        \<and> Options.Network out = []
        \<and> Options.Addr out = []
        \<and> Options.ClientName out = []
        \<and> Options.Dialer out = None
        \<and> Options.OnConnect out = None
        \<and> Options.Protocol out = 0
        \<and> Options.Username out = []
        \<and> Options.Password out = []
        \<and> Options.CredentialsProvider out = None
        \<and> Options.DB out = 0
        \<and> Options.MaxRetries out = 0
        \<and> Options.MinRetryBackoff out = 0
        \<and> Options.MaxRetryBackoff out = 0
        \<and> Options.DialTimeout out = 0
        \<and> Options.ReadTimeout out = 0
        \<and> Options.WriteTimeout out = 0
        \<and> Options.ContextTimeoutEnabled out = False
        \<and> Options.PoolFIFO out = False
        \<and> Options.PoolSize out = 0
        \<and> Options.PoolTimeout out = 0
        \<and> Options.MinIdleConns out = 0
        \<and> Options.MaxIdleConns out = 0
        \<and> Options.MaxActiveConns out = 0
        \<and> Options.ConnMaxIdleTime out = 0
        \<and> Options.ConnMaxLifetime out = 0
        \<and> Options.TLSConfig out = None
        \<and> Options.Limiter out = None
        \<and> Options.DisableIndentity out = False
        \<and> Options.MaxRetries out \<noteq> 3
        \<and> Options.MinRetryBackoff out \<noteq> 8000000
        \<and> Options.DialTimeout out \<noteq> 5000000000
        \<and> Options.PoolSize out \<noteq> 10)"
proof -
  have zero: "Client.Network Client_zero = []
   \<and> Client.Addr Client_zero = []
   \<and> Client.ClientName Client_zero = []
   \<and> Client.Dialer Client_zero = None
   \<and> Client.OnConnect Client_zero = None
   \<and> Client.Protocol Client_zero = 0
   \<and> Client.Username Client_zero = []
   \<and> Client.Password Client_zero = []
   \<and> Client.CredentialsProvider Client_zero = None
   \<and> Client.MaxIdleConns Client_zero = 0
   \<and> Client.MaxRetries Client_zero = 0
   \<and> Client.MinRetryBackoff Client_zero = 0
   \<and> Client.MaxRetryBackoff Client_zero = 0
   \<and> Client.DialTimeout Client_zero = 0
   \<and> Client.ReadTimeout Client_zero = 0
   \<and> Client.WriteTimeout Client_zero = 0
   \<and> Client.ContextTimeoutEnabled Client_zero = False
   \<and> Client.PoolFIFO Client_zero = False
   \<and> Client.PoolSize Client_zero = 0
   \<and> Client.PoolTimeout Client_zero = 0
   \<and> Client.MinIdleConns Client_zero = 0
   \<and> Client.MaxActiveConns Client_zero = 0
   \<and> Client.ConnMaxIdleTime Client_zero = 0
   \<and> Client.ConnMaxLifetime Client_zero = 0
   \<and> Client.TLSConfig Client_zero = None
   \<and> Client.Limiter Client_zero = None
   \<and> Client.DisableIndentity Client_zero = False"
    by (simp add: Client_zero_def)
  have "\<exists>out. ParseToRedisOptions_result Client_zero [] = Some out
        \<and> Options.Network out = []
        \<and> Options.Addr out = []
        \<and> Options.ClientName out = []
        \<and> Options.Dialer out = None
        \<and> Options.OnConnect out = None
        \<and> Options.Protocol out = 0
        \<and> Options.Username out = []
        \<and> Options.Password out = []
        \<and> Options.CredentialsProvider out = None
        \<and> Options.DB out = 0
        \<and> Options.MaxRetries out = 0
        \<and> Options.MinRetryBackoff out = 0
        \<and> Options.MaxRetryBackoff out = 0
        \<and> Options.DialTimeout out = 0
        \<and> Options.ReadTimeout out = 0
        \<and> Options.WriteTimeout out = 0
        \<and> Options.ContextTimeoutEnabled out = False
        \<and> Options.PoolFIFO out = False
        \<and> Options.PoolSize out = 0
        \<and> Options.PoolTimeout out = 0
        \<and> Options.MinIdleConns out = 0
        \<and> Options.MaxIdleConns out = 0
        \<and> Options.MaxActiveConns out = 0
        \<and> Options.ConnMaxIdleTime out = 0
        \<and> Options.ConnMaxLifetime out = 0
        \<and> Options.TLSConfig out = None
        \<and> Options.Limiter out = None
        \<and> Options.DisableIndentity out = False"
    using zero ParseToRedisOptions_no_defaults [where c = Client_zero and h = "[]"]
    by simp
  then obtain out where out: "ParseToRedisOptions_result Client_zero [] = Some out
        \<and> Options.Network out = []
        \<and> Options.Addr out = []
        \<and> Options.ClientName out = []
        \<and> Options.Dialer out = None
        \<and> Options.OnConnect out = None
        \<and> Options.Protocol out = 0
        \<and> Options.Username out = []
        \<and> Options.Password out = []
        \<and> Options.CredentialsProvider out = None
        \<and> Options.DB out = 0
        \<and> Options.MaxRetries out = 0
        \<and> Options.MinRetryBackoff out = 0
        \<and> Options.MaxRetryBackoff out = 0
        \<and> Options.DialTimeout out = 0
        \<and> Options.ReadTimeout out = 0
        \<and> Options.WriteTimeout out = 0
        \<and> Options.ContextTimeoutEnabled out = False
        \<and> Options.PoolFIFO out = False
        \<and> Options.PoolSize out = 0
        \<and> Options.PoolTimeout out = 0
        \<and> Options.MinIdleConns out = 0
        \<and> Options.MaxIdleConns out = 0
        \<and> Options.MaxActiveConns out = 0
        \<and> Options.ConnMaxIdleTime out = 0
        \<and> Options.ConnMaxLifetime out = 0
        \<and> Options.TLSConfig out = None
        \<and> Options.Limiter out = None
        \<and> Options.DisableIndentity out = False"
    by (rule exE)
  then have "ParseToRedisOptions_result Client_zero [] = Some out
        \<and> Options.Network out = []
        \<and> Options.Addr out = []
        \<and> Options.ClientName out = []
        \<and> Options.Dialer out = None
        \<and> Options.OnConnect out = None
        \<and> Options.Protocol out = 0
        \<and> Options.Username out = []
        \<and> Options.Password out = []
        \<and> Options.CredentialsProvider out = None
        \<and> Options.DB out = 0
        \<and> Options.MaxRetries out = 0
        \<and> Options.MinRetryBackoff out = 0
        \<and> Options.MaxRetryBackoff out = 0
        \<and> Options.DialTimeout out = 0
        \<and> Options.ReadTimeout out = 0
        \<and> Options.WriteTimeout out = 0
        \<and> Options.ContextTimeoutEnabled out = False
        \<and> Options.PoolFIFO out = False
        \<and> Options.PoolSize out = 0
        \<and> Options.PoolTimeout out = 0
        \<and> Options.MinIdleConns out = 0
        \<and> Options.MaxIdleConns out = 0
        \<and> Options.MaxActiveConns out = 0
        \<and> Options.ConnMaxIdleTime out = 0
        \<and> Options.ConnMaxLifetime out = 0
        \<and> Options.TLSConfig out = None
        \<and> Options.Limiter out = None
        \<and> Options.DisableIndentity out = False
        \<and> Options.MaxRetries out \<noteq> 3
        \<and> Options.MinRetryBackoff out \<noteq> 8000000
        \<and> Options.DialTimeout out \<noteq> 5000000000
        \<and> Options.PoolSize out \<noteq> 10"
    by simp
  then have "\<exists>out. ParseToRedisOptions_result Client_zero [] = Some out
        \<and> Options.Network out = []
        \<and> Options.Addr out = []
        \<and> Options.ClientName out = []
        \<and> Options.Dialer out = None
        \<and> Options.OnConnect out = None
        \<and> Options.Protocol out = 0
        \<and> Options.Username out = []
        \<and> Options.Password out = []
        \<and> Options.CredentialsProvider out = None
        \<and> Options.DB out = 0
        \<and> Options.MaxRetries out = 0
        \<and> Options.MinRetryBackoff out = 0
        \<and> Options.MaxRetryBackoff out = 0
        \<and> Options.DialTimeout out = 0
        \<and> Options.ReadTimeout out = 0
        \<and> Options.WriteTimeout out = 0
        \<and> Options.ContextTimeoutEnabled out = False
        \<and> Options.PoolFIFO out = False
        \<and> Options.PoolSize out = 0
        \<and> Options.PoolTimeout out = 0
        \<and> Options.MinIdleConns out = 0
        \<and> Options.MaxIdleConns out = 0
        \<and> Options.MaxActiveConns out = 0
        \<and> Options.ConnMaxIdleTime out = 0
        \<and> Options.ConnMaxLifetime out = 0
        \<and> Options.TLSConfig out = None
        \<and> Options.Limiter out = None
        \<and> Options.DisableIndentity out = False
        \<and> Options.MaxRetries out \<noteq> 3
        \<and> Options.MinRetryBackoff out \<noteq> 8000000
        \<and> Options.DialTimeout out \<noteq> 5000000000
        \<and> Options.PoolSize out \<noteq> 10"
    by (rule exI)
  with zero show ?thesis
    by (rule conjI)
qed

text \<open>
  C9. Two configurations that agree on every field but \<^verbatim>\<open>DB\<close> and \<^verbatim>\<open>readOnly\<close>
  (the second is the first with these two fields replaced) give the same pointer, the
  same heap and the same struct.
\<close>

theorem ParseToRedisOptions_DB_readOnly_noninterference:
  "c2 = c1\<lparr>Client.DB := Client.DB c2, readOnly := readOnly c2\<rparr> \<Longrightarrow>
   ParseToRedisOptions c1 h = ParseToRedisOptions c2 h
   \<and> ParseToRedisOptions_result c1 h = ParseToRedisOptions_result c2 h"
proof -
  assume eq: "c2 = c1\<lparr>Client.DB := Client.DB c2, readOnly := readOnly c2\<rparr>"
  have "ParseToRedisOptions c2 h
      = ParseToRedisOptions (c1\<lparr>Client.DB := Client.DB c2, readOnly := readOnly c2\<rparr>) h"
    using eq by simp
  also have "\<dots> = ParseToRedisOptions c1 h"
    by (rule ParseToRedisOptions_ignores_DB_readOnly)
  finally have "ParseToRedisOptions c1 h = ParseToRedisOptions c2 h"
    by (rule sym)
  then show ?thesis
    by (simp add: ParseToRedisOptions_result_def)
qed

theorem ParseToRedisOptions_DB_readOnly_noninterference_witness:
  "Client_zero\<lparr>Client.DB := 5, readOnly := True\<rparr>
     = Client_zero\<lparr>Client.DB := Client.DB (Client_zero\<lparr>Client.DB := 5, readOnly := True\<rparr>),
         readOnly := readOnly (Client_zero\<lparr>Client.DB := 5, readOnly := True\<rparr>)\<rparr>
   \<and> Client_zero\<lparr>Client.DB := 5, readOnly := True\<rparr> \<noteq> Client_zero
   \<and> ParseToRedisOptions Client_zero []
       = ParseToRedisOptions (Client_zero\<lparr>Client.DB := 5, readOnly := True\<rparr>) []
   \<and> ParseToRedisOptions_result Client_zero []
       = ParseToRedisOptions_result (Client_zero\<lparr>Client.DB := 5, readOnly := True\<rparr>) []"
proof -
  let ?c2 = "Client_zero\<lparr>Client.DB := 5, readOnly := True\<rparr>"
  have eq: "?c2 = Client_zero\<lparr>Client.DB := Client.DB ?c2, readOnly := readOnly ?c2\<rparr>"
    by simp
  have ne: "?c2 \<noteq> Client_zero"
    by (simp add: Client_zero_def)
  show ?thesis
    using eq ne ParseToRedisOptions_DB_readOnly_noninterference [OF eq, of "[]"]
    by simp
qed

subsection \<open>An invariant of the result\<close>

text \<open>
  C10. In every result \<^verbatim>\<open>MaxIdleConns\<close> equals \<^verbatim>\<open>MaxActiveConns\<close>, both being the
  \<^verbatim>\<open>MaxActiveConns\<close> of the configuration.
\<close>

theorem ParseToRedisOptions_MaxIdleConns_eq_MaxActiveConns:
  "\<exists>out. ParseToRedisOptions_result c h = Some out
     \<and> Options.MaxIdleConns out = Options.MaxActiveConns out
     \<and> Options.MaxIdleConns out = Client.MaxActiveConns c
     \<and> Options.MaxActiveConns out = Client.MaxActiveConns c"
  by (simp add: ParseToRedisOptions_result_def ParseToRedisOptions_def
      new_Options_def load_def)

end
